theory Spec2Isabelle
  imports Complex_Main "HOL-Library.Char_ord" "HOL-Library.List_Lexorder"
begin

section \<open>Log investigation pipeline: normalize, validate, fingerprint, store, group, spikes\<close>

text \<open>
  A shallow embedding of the Python package \<^verbatim>\<open>app\<close>: \<^verbatim>\<open>normalize.py\<close>,
  \<^verbatim>\<open>validate.py\<close>, \<^verbatim>\<open>fingerprint.py\<close>, \<^verbatim>\<open>ingest.py\<close>, \<^verbatim>\<open>db.py\<close>,
  \<^verbatim>\<open>group.py\<close> and \<^verbatim>\<open>spikes.py\<close>.

  Conventions of the model.
  \<^item> A Python \<^verbatim>\<open>str\<close> is a \<^typ>\<open>string\<close>: the list of the bytes of its UTF-8 encoding, so
    that \<^term>\<open>length\<close> is the length of \<^verbatim>\<open>s.encode("utf-8")\<close> and the order of the
    type is the order in which SQLite compares \<^verbatim>\<open>TEXT\<close>. A character of the text is the
    run of bytes that encodes it. The classes and case of the ASCII characters are
    written out; those of the other characters are tables of Unicode, which the model
    takes as parameters.
  \<^item> A JSON number with a fraction is the real number it denotes. The arithmetic of
    the spike query, which rounds, is a parameter.
  \<^item> A naive \<^verbatim>\<open>datetime\<close> is the integer number of microseconds from the epoch to
    its reading; an aware one carries its offset as well. The table keeps the ISO-8601
    text of each timestamp, and the queries compare the texts.
  \<^item> The clock (\<^verbatim>\<open>datetime.utcnow()\<close>) is an argument \<open>now\<close>.
\<close>

subsection \<open>Strings\<close>

definition ascii_upper_letters :: string where
  "ascii_upper_letters = ''ABCDEFGHIJKLMNOPQRSTUVWXYZ''"

definition ascii_lower_letters :: string where
  "ascii_lower_letters = ''abcdefghijklmnopqrstuvwxyz''"

definition digit_chars :: string where
  "digit_chars = ''0123456789''"

definition upper_char :: "char \<Rightarrow> char" where
  "upper_char c =
     (case map_of (zip ascii_lower_letters ascii_upper_letters) c of
        Some d \<Rightarrow> d
      | None \<Rightarrow> c)"

definition lower_char :: "char \<Rightarrow> char" where
  "lower_char c =
     (case map_of (zip ascii_upper_letters ascii_lower_letters) c of
        Some d \<Rightarrow> d
      | None \<Rightarrow> c)"

text \<open>
  \<^verbatim>\<open>s.lower()\<close>, where only its ASCII letters matter: the keys it is applied to are
  compared with ASCII aliases that hold no \<^verbatim>\<open>k\<close>, and the Kelvin sign is the one
  character outside ASCII whose lower case lies in ASCII.
\<close>

definition lower :: "string \<Rightarrow> string" where
  "lower s = map lower_char s"

text \<open>
  White space as \<^verbatim>\<open>str.isspace\<close> sees it in ASCII: tab, line feed, vertical tab, form
  feed, carriage return, the four separators 0x1C to 0x1F, and the space.
\<close>

definition is_space :: "char \<Rightarrow> bool" where
  "is_space c \<longleftrightarrow>
     c \<in> set [CHR 0x09, CHR 0x0A, CHR 0x0B, CHR 0x0C, CHR 0x0D,
               CHR 0x1C, CHR 0x1D, CHR 0x1E, CHR 0x1F, CHR 0x20]"

definition is_digit :: "char \<Rightarrow> bool" where
  "is_digit c \<longleftrightarrow> c \<in> set digit_chars"

definition is_hex :: "char \<Rightarrow> bool" where
  "is_hex c \<longleftrightarrow> c \<in> set (digit_chars @ ''abcdefABCDEF'')"

definition is_word :: "char \<Rightarrow> bool" where
  "is_word c \<longleftrightarrow>
     c \<in> set (digit_chars @ ascii_lower_letters @ ascii_upper_letters @ ''_'')"

subsection \<open>Characters\<close>

text \<open>
  A byte below 0x80 is an ASCII character; a byte from 0x80 to 0xBF continues the
  character that the byte before it began.
\<close>

definition is_ascii :: "char \<Rightarrow> bool" where
  "is_ascii c \<longleftrightarrow> \<not> digit7 c"

definition is_continuation :: "char \<Rightarrow> bool" where
  "is_continuation c \<longleftrightarrow> digit7 c \<and> \<not> digit6 c"

text \<open>The characters of a text, each the bytes that encode it.\<close>

function chars :: "string \<Rightarrow> string list" where
  "chars [] = []"
| "chars (c # cs) =
     (if is_ascii c then [c] # chars cs
      else (c # takeWhile is_continuation cs) # chars (dropWhile is_continuation cs))"
  by pat_completeness auto
termination
proof (relation "measure length")
  fix c :: char and cs :: string
  have "length (dropWhile is_continuation cs) \<le> length cs"
    by (rule length_dropWhile_le)
  then show "(dropWhile is_continuation cs, c # cs) \<in> measure length"
    by simp
qed simp_all

text \<open>The characters of an ASCII text.\<close>

definition ascii_chars :: "string \<Rightarrow> string list" where
  "ascii_chars s = map (\<lambda>c. [c]) s"

text \<open>The ASCII character that a character is, if it is one.\<close>

definition ascii_char :: "string \<Rightarrow> char option" where
  "ascii_char ch = (case ch of [c] \<Rightarrow> if is_ascii c then Some c else None | _ \<Rightarrow> None)"

text \<open>
  The tables of Unicode for the characters outside ASCII, each given by its bytes:
  \<^verbatim>\<open>str.isspace\<close>, \<^verbatim>\<open>str.isdecimal\<close>, \<^verbatim>\<open>str.isalnum\<close> and \<^verbatim>\<open>str.upper\<close> of the
  character.
\<close>

record unicode_db =
  uni_isspace :: "string \<Rightarrow> bool"
  uni_isdecimal :: "string \<Rightarrow> bool"
  uni_isalnum :: "string \<Rightarrow> bool"
  uni_upper :: "string \<Rightarrow> string"

text \<open>
  White space (\<^verbatim>\<open>str.isspace\<close>, the class \<^verbatim>\<open>\s\<close>), decimal digits (the class
  \<^verbatim>\<open>\d\<close>) and word characters (the class \<^verbatim>\<open>\w\<close>: alphanumeric or the underscore; a
  decimal digit is alphanumeric).
\<close>

definition space_char :: "'a unicode_db_scheme \<Rightarrow> string \<Rightarrow> bool" where
  "space_char U ch = (case ascii_char ch of Some c \<Rightarrow> is_space c | None \<Rightarrow> uni_isspace U ch)"

definition digit_char :: "'a unicode_db_scheme \<Rightarrow> string \<Rightarrow> bool" where
  "digit_char U ch = (case ascii_char ch of Some c \<Rightarrow> is_digit c | None \<Rightarrow> uni_isdecimal U ch)"

definition word_char :: "'a unicode_db_scheme \<Rightarrow> string \<Rightarrow> bool" where
  "word_char U ch =
     (case ascii_char ch of
        Some c \<Rightarrow> is_word c
      | None \<Rightarrow> uni_isalnum U ch \<or> uni_isdecimal U ch)"

definition hex_char :: "string \<Rightarrow> bool" where
  "hex_char ch = (case ascii_char ch of Some c \<Rightarrow> is_hex c | None \<Rightarrow> False)"

text \<open>\<^verbatim>\<open>s.upper()\<close>: character by character.\<close>

definition upper :: "'a unicode_db_scheme \<Rightarrow> string \<Rightarrow> string" where
  "upper U s =
     concat (map (\<lambda>ch. case ascii_char ch of
                           Some c \<Rightarrow> [upper_char c]
                         | None \<Rightarrow> uni_upper U ch) (chars s))"

text \<open>\<^verbatim>\<open>s.strip()\<close>: the text without the white space at its two ends.\<close>

definition strip_chars :: "'a unicode_db_scheme \<Rightarrow> string list \<Rightarrow> string list" where
  "strip_chars U cs = rev (dropWhile (space_char U) (rev (dropWhile (space_char U) cs)))"

definition strip :: "'a unicode_db_scheme \<Rightarrow> string \<Rightarrow> string" where
  "strip U s = concat (strip_chars U (chars s))"

text \<open>\<^verbatim>\<open>sep.join(parts)\<close>.\<close>

fun join :: "string \<Rightarrow> string list \<Rightarrow> string" where
  "join sep [] = []"
| "join sep [p] = p"
| "join sep (p # q # ps) = p @ sep @ join sep (q # ps)"

text \<open>\<^verbatim>\<open>str(n)\<close> for an integer.\<close>

fun str_nat :: "nat \<Rightarrow> string" where
  "str_nat n =
     (if n < 10 then [digit_chars ! n]
      else str_nat (n div 10) @ [digit_chars ! (n mod 10)])"

declare str_nat.simps [simp del]

definition str_int :: "int \<Rightarrow> string" where
  "str_int i = (if i < 0 then ''-'' @ str_nat (nat (- i)) else str_nat (nat i))"

text \<open>
  \<^verbatim>\<open>str(t)\<close> for a tuple of strings none of which holds a quote, a backslash or a
  control character (as the level names are).
\<close>

definition repr_str_tuple :: "string list \<Rightarrow> string" where
  "repr_str_tuple xs =
     ''('' @ join '', '' (map (\<lambda>s. [CHR 0x27] @ s @ [CHR 0x27]) xs)
       @ (if length xs = 1 then '','' else '''') @ '')''"

subsection \<open>Python values\<close>

datatype pyfloat = Finite real | PosInf | NegInf | NaN

text \<open>The values a decoded JSON document is made of.\<close>

datatype pyval =
    PNone
  | PBool bool
  | PInt int
  | PFloat pyfloat
  | PStr string
  | PList "pyval list"
  | PDict "(string \<times> pyval) list"

text \<open>
  A \<^verbatim>\<open>dict\<close> is the list of its items in insertion order (its keys are distinct).
\<close>

type_synonym pydict = "(string \<times> pyval) list"

datatype py_error = ValueError | OverflowError | TypeError | DatabaseError

text \<open>Truth value testing (\<^verbatim>\<open>bool(v)\<close>).\<close>

fun truthy :: "pyval \<Rightarrow> bool" where
  "truthy PNone = False"
| "truthy (PBool b) = b"
| "truthy (PInt i) = (i \<noteq> 0)"
| "truthy (PFloat f) = (f \<noteq> Finite 0)"
| "truthy (PStr s) = (s \<noteq> [])"
| "truthy (PList xs) = (xs \<noteq> [])"
| "truthy (PDict d) = (d \<noteq> [])"

text \<open>\<^verbatim>\<open>a or b\<close>.\<close>

definition py_or :: "pyval \<Rightarrow> pyval \<Rightarrow> pyval" where
  "py_or a b = (if truthy a then a else b)"

text \<open>\<^verbatim>\<open>d.get(k)\<close>.\<close>

definition dict_get :: "pydict \<Rightarrow> string \<Rightarrow> pyval" where
  "dict_get d k = (case map_of d k of Some v \<Rightarrow> v | None \<Rightarrow> PNone)"

subsection \<open>Dates and times\<close>

text \<open>
  A naive \<^verbatim>\<open>datetime\<close> is its reading in microseconds from the epoch; an aware one
  has in addition the offset, kept as the text that \<^verbatim>\<open>isoformat\<close> prints for it (such
  as \<^verbatim>\<open>+00:00\<close>).
\<close>

datatype datetime = Naive int | Aware int string

text \<open>The range of \<^verbatim>\<open>datetime\<close>: the years 1 to 9999.\<close>

definition min_datetime_us :: int where
  "min_datetime_us = - 62135596800 * 1000000"

definition max_datetime_us :: int where
  "max_datetime_us = 253402300800 * 1000000 - 1"

text \<open>A number in decimal digits, filled with zeros on the left to a width.\<close>

definition zero_pad :: "nat \<Rightarrow> int \<Rightarrow> string" where
  "zero_pad width n = replicate (width - length (str_int n)) (CHR ''0'') @ str_int n"

text \<open>
  \<^verbatim>\<open>isoformat()\<close> of a naive datetime within the range: the civil date
  (year, month, day) of the day number, the time of day, and the microseconds
  when they are not zero.
\<close>

definition civil_ymd :: "int \<Rightarrow> int \<Rightarrow> int \<Rightarrow> int \<Rightarrow> int \<times> int \<times> int" where
  "civil_ymd era yoe doy mp =
     (if mp < 10 then (yoe + era * 400, mp + 3, doy - (153 * mp + 2) div 5 + 1)
      else (yoe + era * 400 + 1, mp - 9, doy - (153 * mp + 2) div 5 + 1))"

definition civil_doy :: "int \<Rightarrow> int \<Rightarrow> int \<Rightarrow> int \<times> int \<times> int" where
  "civil_doy era yoe doy = civil_ymd era yoe doy ((5 * doy + 2) div 153)"

definition civil_yoe :: "int \<Rightarrow> int \<Rightarrow> int \<Rightarrow> int \<times> int \<times> int" where
  "civil_yoe era doe yoe = civil_doy era yoe (doe - (365 * yoe + yoe div 4 - yoe div 100))"

definition civil_doe :: "int \<Rightarrow> int \<Rightarrow> int \<times> int \<times> int" where
  "civil_doe era doe =
     civil_yoe era doe ((doe - doe div 1460 + doe div 36524 - doe div 146096) div 365)"

definition civil_from_days :: "int \<Rightarrow> int \<times> int \<times> int" where
  "civil_from_days days = civil_doe ((days + 719468) div 146097) ((days + 719468) mod 146097)"

definition iso_date :: "int \<times> int \<times> int \<Rightarrow> string" where
  "iso_date ymd =
     (case ymd of (y, m, d) \<Rightarrow> zero_pad 4 y @ ''-'' @ zero_pad 2 m @ ''-'' @ zero_pad 2 d)"

definition iso_time :: "int \<Rightarrow> string" where
  "iso_time rest =
     zero_pad 2 (rest div 3600000000) @ '':''
       @ zero_pad 2 (rest div 60000000 mod 60) @ '':''
       @ zero_pad 2 (rest div 1000000 mod 60)
       @ (if rest mod 1000000 = 0 then [] else ''.'' @ zero_pad 6 (rest mod 1000000))"

definition iso_text :: "int \<Rightarrow> string" where
  "iso_text us =
     iso_date (civil_from_days (us div 86400000000)) @ ''T'' @ iso_time (us mod 86400000000)"

fun isoformat :: "datetime \<Rightarrow> string" where
  "isoformat (Naive us) = iso_text us"
| "isoformat (Aware us offset) = iso_text us @ offset"

text \<open>\<^verbatim>\<open>timedelta(minutes=m)\<close>, in microseconds; its days are bounded.\<close>

definition minutes :: "int \<Rightarrow> int" where
  "minutes m = m * 60000000"

definition timedelta_minutes :: "int \<Rightarrow> py_error + int" where
  "timedelta_minutes m =
     (if - 999999999 * 86400000000 \<le> minutes m \<and> minutes m < 1000000000 * 86400000000
      then Inr (minutes m) else Inl OverflowError)"

text \<open>A naive datetime minus a \<^verbatim>\<open>timedelta\<close>; the result must lie in the range.\<close>

definition datetime_sub :: "int \<Rightarrow> int \<Rightarrow> py_error + int" where
  "datetime_sub t delta =
     (if min_datetime_us \<le> t - delta \<and> t - delta \<le> max_datetime_us
      then Inr (t - delta) else Inl OverflowError)"

text \<open>
  The library functions whose results the pipeline only passes on are parameters,
  next to the tables of Unicode:
  \<^item> \<open>repr_val\<close>: \<^verbatim>\<open>str\<close> of a float, a list or a dict;
  \<^item> \<open>json_dumps\<close>: \<^verbatim>\<open>json.dumps\<close>, \<open>None\<close> when it raises;
  \<^item> \<open>fromisoformat\<close>: \<^verbatim>\<open>datetime.fromisoformat\<close>, \<open>None\<close> when it raises;
  \<^item> \<open>float_of_str\<close>: \<^verbatim>\<open>float\<close> of a string, \<open>None\<close> when it raises;
  \<^item> \<open>exc_text\<close>: \<^verbatim>\<open>str(e)\<close> of an exception.
\<close>

record runtime = unicode_db +
  repr_val :: "pyval \<Rightarrow> string"
  json_dumps :: "pyval \<Rightarrow> string option"
  fromisoformat :: "string \<Rightarrow> datetime option"
  float_of_str :: "string \<Rightarrow> pyfloat option"
  exc_text :: "py_error \<Rightarrow> string"

text \<open>\<^verbatim>\<open>str(v)\<close>.\<close>

fun py_str :: "runtime \<Rightarrow> pyval \<Rightarrow> string" where
  "py_str L PNone = ''None''"
| "py_str L (PBool b) = (if b then ''True'' else ''False'')"
| "py_str L (PInt i) = str_int i"
| "py_str L (PStr s) = s"
| "py_str L v = repr_val L v"

text \<open>
  A runtime for evaluating examples. Of Unicode it knows four characters: the
  no-break space (white space), the Arabic-Indic digit three (a decimal digit), the
  letter e with acute and the dotless i, whose upper case is the ASCII letter I. Its
  parsers reject every text and its printers print a fixed text.
\<close>

definition sample_runtime :: runtime where
  "sample_runtime =
     \<lparr>uni_isspace = (\<lambda>ch. ch = [CHR 0xC2, CHR 0xA0]),
      uni_isdecimal = (\<lambda>ch. ch = [CHR 0xD9, CHR 0xA3]),
      uni_isalnum = (\<lambda>ch. ch \<in> set [[CHR 0xD9, CHR 0xA3], [CHR 0xC3, CHR 0xA9],
                                      [CHR 0xC3, CHR 0x89], [CHR 0xC4, CHR 0xB1]]),
      uni_upper = (\<lambda>ch. if ch = [CHR 0xC3, CHR 0xA9] then [CHR 0xC3, CHR 0x89]
                         else if ch = [CHR 0xC4, CHR 0xB1] then ''I'' else ch),
      repr_val = (\<lambda>v. ''<repr>''),
      json_dumps = (\<lambda>v. Some ''<json>''),
      fromisoformat = (\<lambda>s. None),
      float_of_str = (\<lambda>s. None),
      exc_text = (\<lambda>e. ''<exception>'')\<rparr>"

subsection \<open>schema.py and config.py\<close>

record CanonicalLog =
  timestamp :: datetime
  level :: string
  message :: string
  service :: string
  correlation_id :: string
  metadata :: pydict
  raw :: string

record Settings =
  max_log_size_bytes :: int
  allowed_levels :: "string list"

text \<open>The settings when \<^verbatim>\<open>MAX_LOG_SIZE_BYTES\<close> is not set in the environment.\<close>

definition settings :: Settings where
  "settings =
     \<lparr>max_log_size_bytes = 50000,
      allowed_levels = [''DEBUG'', ''INFO'', ''WARNING'', ''ERROR'', ''CRITICAL'']\<rparr>"

subsection \<open>validate.py\<close>

text \<open>The argument of \<^verbatim>\<open>validate_log\<close>: a \<^verbatim>\<open>CanonicalLog\<close> or any other value.\<close>

datatype log_arg = Canonical CanonicalLog | Plain pyval

definition invalid_level_error :: "Settings \<Rightarrow> string \<Rightarrow> string" where
  "invalid_level_error cfg lv =
     ''Invalid level: '' @ lv @ ''. Allowed: '' @ repr_str_tuple (allowed_levels cfg)"

definition too_large_error :: "Settings \<Rightarrow> int \<Rightarrow> string" where
  "too_large_error cfg payload_size =
     ''Log payload too large: '' @ str_int payload_size @ '' > ''
       @ str_int (max_log_size_bytes cfg)"

text \<open>
  The three checks at the end of \<^verbatim>\<open>validate_log\<close>, on the level, message and payload
  size its first part extracted; \<open>is_dict\<close> is \<^verbatim>\<open>isinstance(log, dict)\<close>.
\<close>

definition check_rules :: "Settings \<Rightarrow> bool \<Rightarrow> string \<Rightarrow> string \<Rightarrow> int \<Rightarrow> bool \<times> string list" where
  "check_rules cfg is_dict lv msg payload_size =
     (let errors0 = [];
          errors1 = (if lv \<notin> set (allowed_levels cfg)
                     then errors0 @ [invalid_level_error cfg lv] else errors0);
          errors2 = (if payload_size > max_log_size_bytes cfg
                     then errors1 @ [too_large_error cfg payload_size] else errors1);
          errors3 = (if msg = [] \<and> \<not> is_dict
                     then errors2 @ [''Message is required''] else errors2)
      in (length errors3 = 0, errors3))"

definition dict_level :: "runtime \<Rightarrow> pydict \<Rightarrow> string" where
  "dict_level L d =
     (case py_or (py_or (py_or (dict_get d ''level'') (dict_get d ''lvl''))
                   (dict_get d ''severity'')) (PStr ''INFO'') of
        PStr s \<Rightarrow> upper L s
      | _ \<Rightarrow> ''INFO'')"

definition dict_message :: "runtime \<Rightarrow> pydict \<Rightarrow> string" where
  "dict_message L d =
     py_str L (py_or (py_or (py_or (dict_get d ''message'') (dict_get d ''msg''))
                       (dict_get d ''text'')) (PStr ''''))"

definition dict_payload_size :: "runtime \<Rightarrow> pydict \<Rightarrow> int" where
  "dict_payload_size L d =
     (case json_dumps L (PDict d) of Some s \<Rightarrow> int (length s) | None \<Rightarrow> 0)"

definition canonical_payload_size :: "CanonicalLog \<Rightarrow> int" where
  "canonical_payload_size c = int (length (raw c)) + int (length (message c))"

fun validate_log :: "runtime \<Rightarrow> Settings \<Rightarrow> log_arg \<Rightarrow> bool \<times> string list" where
  "validate_log L cfg (Canonical c) =
     check_rules cfg False (level c) (message c) (canonical_payload_size c)"
| "validate_log L cfg (Plain (PDict d)) =
     check_rules cfg True (dict_level L d) (dict_message L d) (dict_payload_size L d)"
| "validate_log L cfg (Plain v) = (False, [''Log must be a dict or CanonicalLog''])"

subsection \<open>normalize.py\<close>

text \<open>
  The alias sets. Python iterates a \<^verbatim>\<open>set\<close> of strings in an order that is not
  specified; the model takes the aliases in the order the source writes them.
\<close>

definition LEVEL_ALIASES :: "string list" where
  "LEVEL_ALIASES =
     [''lvl'', ''level'', ''severity'', ''log_level'', ''severityLevel'',
      ''logLevel'', ''severity_level'']"

definition MESSAGE_ALIASES :: "string list" where
  "MESSAGE_ALIASES = [''msg'', ''message'', ''text'', ''log'', ''description'']"

definition SERVICE_ALIASES :: "string list" where
  "SERVICE_ALIASES =
     [''service'', ''service_name'', ''app'', ''application'', ''source'', ''logger'']"

definition CORRELATION_ALIASES :: "string list" where
  "CORRELATION_ALIASES =
     [''correlation_id'', ''correlationId'', ''request_id'', ''trace_id'', ''traceId'',
      ''requestId'']"

definition TIMESTAMP_ALIASES :: "string list" where
  "TIMESTAMP_ALIASES = [''timestamp'', ''time'', ''ts'', ''@timestamp'', ''datetime'', ''date'']"

text \<open>
  \<^verbatim>\<open>data_lower = {k.lower(): v for k, v in data.items()}\<close>, then
  \<^verbatim>\<open>data_lower[key]\<close>: of two keys with one lower-case form the later item stays.
\<close>

definition data_lower :: "pydict \<Rightarrow> string \<Rightarrow> pyval option" where
  "data_lower data key = map_of (rev (map (\<lambda>(k, v). (lower k, v)) data)) key"

fun find_value :: "pydict \<Rightarrow> string list \<Rightarrow> pyval" where
  "find_value data [] = PNone"
| "find_value data (key # keys) =
     (case data_lower data (lower key) of
        Some v \<Rightarrow> v
      | None \<Rightarrow> find_value data keys)"

text \<open>Rounding to the nearest integer, a tie to the even one.\<close>

definition round_half_even :: "real \<Rightarrow> int" where
  "round_half_even x =
     (let f = \<lfloor>x\<rfloor>; d = x - of_int f
      in if d < 1 / 2 then f
         else if 1 / 2 < d then f + 1
         else if even f then f else f + 1)"

text \<open>
  \<^verbatim>\<open>datetime.utcfromtimestamp(t)\<close>: \<^verbatim>\<open>OverflowError\<close> when \<open>t\<close> does not fit the
  platform's 64-bit \<^verbatim>\<open>time_t\<close>, \<^verbatim>\<open>ValueError\<close> for a NaN and when the year is not
  within 1 to 9999; otherwise the naive datetime of the instant, rounded to the
  microsecond.
\<close>

definition utcfromtimestamp :: "pyfloat \<Rightarrow> py_error + datetime" where
  "utcfromtimestamp t =
     (case t of
        NaN \<Rightarrow> Inl ValueError
      | PosInf \<Rightarrow> Inl OverflowError
      | NegInf \<Rightarrow> Inl OverflowError
      | Finite x \<Rightarrow>
          if x < - (2 ^ 63) \<or> 2 ^ 63 \<le> x then Inl OverflowError
          else (let us = round_half_even (x * 1000000)
                in if min_datetime_us \<le> us \<and> us \<le> max_datetime_us
                   then Inr (Naive us) else Inl ValueError))"

text \<open>\<^verbatim>\<open>ts > 1e12\<close> and \<^verbatim>\<open>ts / 1000.0\<close> on a float.\<close>

fun float_gt :: "pyfloat \<Rightarrow> real \<Rightarrow> bool" where
  "float_gt (Finite x) b = (b < x)"
| "float_gt PosInf b = True"
| "float_gt NegInf b = False"
| "float_gt NaN b = False"

fun float_div :: "pyfloat \<Rightarrow> real \<Rightarrow> pyfloat" where
  "float_div (Finite x) b = Finite (x / b)"
| "float_div f b = f"

text \<open>\<^verbatim>\<open>ts.replace("Z", "+00:00")\<close>.\<close>

definition replace_Z :: "string \<Rightarrow> string" where
  "replace_Z s = concat (map (\<lambda>c. if c = CHR ''Z'' then ''+00:00'' else [c]) s)"

text \<open>
  A \<^verbatim>\<open>bool\<close> is an \<^verbatim>\<open>int\<close> in Python. Only the string branch catches what the
  conversions raise.
\<close>

fun coerce_timestamp :: "runtime \<Rightarrow> int \<Rightarrow> pyval \<Rightarrow> py_error + datetime" where
  "coerce_timestamp L now PNone = Inr (Naive now)"
| "coerce_timestamp L now (PBool b) = utcfromtimestamp (Finite (if b then 1 else 0))"
| "coerce_timestamp L now (PInt i) =
     (if 10 ^ 12 < i then utcfromtimestamp (Finite (of_int i / 1000))
      else utcfromtimestamp (Finite (of_int i)))"
| "coerce_timestamp L now (PFloat f) =
     (if float_gt f (10 ^ 12) then utcfromtimestamp (float_div f 1000)
      else utcfromtimestamp f)"
| "coerce_timestamp L now (PStr s) =
     (case fromisoformat L (replace_Z s) of
        Some t \<Rightarrow> Inr t
      | None \<Rightarrow>
          (case float_of_str L s of
             None \<Rightarrow> Inr (Naive now)
           | Some f \<Rightarrow>
               (case utcfromtimestamp f of
                  Inr t \<Rightarrow> Inr t
                | Inl e \<Rightarrow> Inr (Naive now))))"
| "coerce_timestamp L now v = Inr (Naive now)"

definition coerce_level :: "runtime \<Rightarrow> pyval \<Rightarrow> string" where
  "coerce_level L lv =
     (if lv = PNone then ''INFO''
      else (let s = upper L (strip L (py_str L lv)) in if s \<noteq> [] then s else ''INFO''))"

definition coerce_string :: "runtime \<Rightarrow> pyval \<Rightarrow> string" where
  "coerce_string L val = (if val = PNone then [] else strip L (py_str L val))"

text \<open>\<^verbatim>\<open>s or default\<close> on strings.\<close>

definition str_or :: "string \<Rightarrow> string \<Rightarrow> string" where
  "str_or s dflt = (if s \<noteq> [] then s else dflt)"

definition known :: "string list" where
  "known =
     LEVEL_ALIASES @ MESSAGE_ALIASES @ SERVICE_ALIASES @ CORRELATION_ALIASES
       @ TIMESTAMP_ALIASES"

text \<open>
  The arguments of the \<^verbatim>\<open>CanonicalLog(...)\<close> call are evaluated in order, the
  timestamp first; an exception of \<^verbatim>\<open>_coerce_timestamp\<close> leaves \<^verbatim>\<open>normalize\<close>.
\<close>

definition normalize_log :: "runtime \<Rightarrow> int \<Rightarrow> pydict \<Rightarrow> py_error + CanonicalLog" where
  "normalize_log L now raw_ev =
     (let ts = find_value raw_ev TIMESTAMP_ALIASES;
          lv = find_value raw_ev LEVEL_ALIASES;
          msg = find_value raw_ev MESSAGE_ALIASES;
          svc = find_value raw_ev SERVICE_ALIASES;
          cid = find_value raw_ev CORRELATION_ALIASES;
          md = filter (\<lambda>(k, v). lower k \<notin> set (map lower known) \<and> v \<noteq> PNone) raw_ev
      in case coerce_timestamp L now ts of
           Inl e \<Rightarrow> Inl e
         | Inr t \<Rightarrow>
             Inr \<lparr>timestamp = t,
                  level = coerce_level L lv,
                  message = str_or (coerce_string L msg) ''(no message)'',
                  service = str_or (coerce_string L svc) ''unknown'',
                  correlation_id = str_or (coerce_string L cid) [],
                  metadata = md,
                  raw = (if raw_ev \<noteq> [] then repr_val L (PDict raw_ev) else [])\<rparr>)"

subsection \<open>fingerprint.py\<close>

text \<open>
  \<^verbatim>\<open>\b\<close> in front of a word character, given the character before it (\<open>None\<close> at
  the start of the text), and \<^verbatim>\<open>\b\<close> behind a word character, given the rest.
\<close>

definition at_word_start :: "'a unicode_db_scheme \<Rightarrow> string option \<Rightarrow> bool" where
  "at_word_start U prev = (case prev of None \<Rightarrow> True | Some p \<Rightarrow> \<not> word_char U p)"

definition at_word_end :: "'a unicode_db_scheme \<Rightarrow> string list \<Rightarrow> bool" where
  "at_word_end U rest = (case rest of [] \<Rightarrow> True | c # cs \<Rightarrow> \<not> word_char U c)"

text \<open>
  The pattern of 8-4-4-4-12 hexadecimal digits matches at the head of \<open>s\<close>. The
  pattern names ASCII characters only, and no byte of another character is one, so it
  is matched on the bytes.
\<close>

definition uuid_at :: "string \<Rightarrow> bool" where
  "uuid_at s \<longleftrightarrow>
     36 \<le> length s \<and>
     list_all is_hex (take 8 s) \<and> take 1 (drop 8 s) = ''-'' \<and>
     list_all is_hex (take 4 (drop 9 s)) \<and> take 1 (drop 13 s) = ''-'' \<and>
     list_all is_hex (take 4 (drop 14 s)) \<and> take 1 (drop 18 s) = ''-'' \<and>
     list_all is_hex (take 4 (drop 19 s)) \<and> take 1 (drop 23 s) = ''-'' \<and>
     list_all is_hex (take 12 (drop 24 s))"

text \<open>
  Each \<^verbatim>\<open>re.sub\<close> scans the text from the left and replaces the matches it meets,
  none overlapping another. The patterns with \<^verbatim>\<open>\b\<close>, \<^verbatim>\<open>\d\<close> and \<^verbatim>\<open>\s\<close> see the
  characters of the text; the two with \<^verbatim>\<open>\b\<close> carry the character before the
  position. A greedy run of digits can only end at \<^verbatim>\<open>\b\<close> where the whole run ends,
  so a match takes the whole run or there is none at that position.
\<close>

fun sub_uuid :: "string \<Rightarrow> string" where
  "sub_uuid [] = []"
| "sub_uuid (c # cs) =
     (if uuid_at (c # cs) then ''<uuid>'' @ sub_uuid (drop 35 cs)
      else c # sub_uuid cs)"

function sub_hex :: "'a unicode_db_scheme \<Rightarrow> string option \<Rightarrow> string list \<Rightarrow> string list" where
  "sub_hex U prev [] = []"
| "sub_hex U prev (c # cs) =
     (if at_word_start U prev \<and> c = ''0'' \<and> take 1 cs = [''x'']
          \<and> takeWhile hex_char (drop 1 cs) \<noteq> []
          \<and> at_word_end U (dropWhile hex_char (drop 1 cs))
      then ascii_chars ''<hex>''
             @ sub_hex U (Some (last (takeWhile hex_char (drop 1 cs))))
                 (dropWhile hex_char (drop 1 cs))
      else c # sub_hex U (Some c) cs)"
  by pat_completeness auto
termination
proof (relation "measure (\<lambda>(U, prev, s). length s)")
  fix U :: "'a unicode_db_scheme" and prev :: "string option" and c :: string
    and cs :: "string list"
  have "length (dropWhile hex_char (drop 1 cs)) \<le> length (drop 1 cs)"
    by (rule length_dropWhile_le)
  then show "((U, Some (last (takeWhile hex_char (drop 1 cs))), dropWhile hex_char (drop 1 cs)),
               U, prev, c # cs) \<in> measure (\<lambda>(U, prev, s). length s)"
    by simp
qed simp_all

function sub_int :: "'a unicode_db_scheme \<Rightarrow> string option \<Rightarrow> string list \<Rightarrow> string list" where
  "sub_int U prev [] = []"
| "sub_int U prev (c # cs) =
     (if at_word_start U prev \<and> digit_char U c
          \<and> at_word_end U (dropWhile (digit_char U) cs)
      then ascii_chars ''<n>''
             @ sub_int U (Some (last (c # takeWhile (digit_char U) cs)))
                 (dropWhile (digit_char U) cs)
      else c # sub_int U (Some c) cs)"
  by pat_completeness auto
termination
proof (relation "measure (\<lambda>(U, prev, s). length s)")
  fix U :: "'a unicode_db_scheme" and prev :: "string option" and c :: string
    and cs :: "string list"
  have "length (dropWhile (digit_char U) cs) \<le> length cs"
    by (rule length_dropWhile_le)
  then show "((U, Some (last (c # takeWhile (digit_char U) cs)), dropWhile (digit_char U) cs),
               U, prev, c # cs) \<in> measure (\<lambda>(U, prev, s). length s)"
    by simp
qed simp_all

function sub_colon :: "'a unicode_db_scheme \<Rightarrow> string list \<Rightarrow> string list" where
  "sub_colon U [] = []"
| "sub_colon U (c # cs) =
     (if c = '':'' \<and> take 3 (dropWhile (space_char U) cs) = ascii_chars ''<n>''
      then ascii_chars '':<n>'' @ sub_colon U (drop 3 (dropWhile (space_char U) cs))
      else c # sub_colon U cs)"
  by pat_completeness auto
termination
proof (relation "measure (\<lambda>(U, s). length s)")
  fix U :: "'a unicode_db_scheme" and c :: string and cs :: "string list"
  have "length (dropWhile (space_char U) cs) \<le> length cs"
    by (rule length_dropWhile_le)
  then show "((U, drop 3 (dropWhile (space_char U) cs)), U, c # cs)
               \<in> measure (\<lambda>(U, s). length s)"
    by simp
qed simp_all

declare sub_hex.simps [simp del] sub_int.simps [simp del] sub_colon.simps [simp del]

definition normalize_message_for_fingerprint :: "runtime \<Rightarrow> string \<Rightarrow> string" where
  "normalize_message_for_fingerprint L msg =
     (if msg = [] then []
      else strip L (concat (sub_colon L (sub_int L None (sub_hex L None (chars (sub_uuid msg)))))))"

definition compute_fingerprint :: "runtime \<Rightarrow> CanonicalLog \<Rightarrow> string" where
  "compute_fingerprint L c =
     (let normalized_msg = normalize_message_for_fingerprint L (message c);
          parts = [service c, level c, normalized_msg]
      in join ''|'' (filter (\<lambda>p. p \<noteq> []) parts))"
subsection \<open>db.py\<close>

text \<open>
  A row of the table \<^verbatim>\<open>logs\<close> (the column \<^verbatim>\<open>created_at\<close>, which no query reads, is
  left out) and the database: the table in insertion order, the last identifier that
  \<^verbatim>\<open>AUTOINCREMENT\<close> gave out, and the one row of \<^verbatim>\<open>ingest_totals\<close>, whose counter
  stays in the range in which SQLite keeps an \<^verbatim>\<open>INTEGER\<close> exact.
\<close>

record LogRow =
  row_id :: nat
  row_timestamp :: string
  row_level :: string
  row_message :: string
  row_service :: string
  row_correlation_id :: string
  row_metadata :: string
  row_raw :: string
  row_fingerprint :: string
  row_group_id :: string

record Database =
  logs :: "LogRow list"
  last_id :: nat
  total_rejected :: int

text \<open>
  An open connection: the database as its transaction sees it, with the rows written
  and not yet committed, and the database as it was last committed, which is what
  stays when the connection is closed.
\<close>

record Connection =
  visible :: Database
  durable :: Database

definition connect :: "Database \<Rightarrow> Connection" where
  "connect db = \<lparr>visible = db, durable = db\<rparr>"

text \<open>
  What the storage medium does with the write of one item: the \<^verbatim>\<open>INSERT\<close> and the
  \<^verbatim>\<open>COMMIT\<close> go through; the \<^verbatim>\<open>INSERT\<close> raises and writes nothing; the \<^verbatim>\<open>COMMIT\<close>
  raises and the transaction stays open with the row in it; or the \<^verbatim>\<open>COMMIT\<close> raises
  and SQLite rolls the transaction back.
\<close>

datatype write_outcome = Written | InsertRefused | CommitRefused | CommitRolledBack

text \<open>\<^verbatim>\<open>conn.commit()\<close>: the exception it raises, if any, and the connection after it.\<close>

definition commit :: "write_outcome \<Rightarrow> Connection \<Rightarrow> py_error option \<times> Connection" where
  "commit w cn =
     (case w of
        CommitRefused \<Rightarrow> (Some DatabaseError, cn)
      | CommitRolledBack \<Rightarrow> (Some DatabaseError, cn\<lparr>visible := durable cn\<rparr>)
      | _ \<Rightarrow> (None, cn\<lparr>durable := visible cn\<rparr>))"

text \<open>
  \<^verbatim>\<open>add_rejected_count\<close> opens a connection of its own, updates the counter and
  commits. Whether the three steps go through is the input \<open>ok\<close>; when one of them
  raises, the counter stays as it was and the exception leaves the function.
\<close>

definition add_rejected_count :: "bool \<Rightarrow> int \<Rightarrow> Database \<Rightarrow> py_error + Database" where
  "add_rejected_count ok n db =
     (if ok then Inr (db\<lparr>total_rejected := total_rejected db + n\<rparr>) else Inl DatabaseError)"

subsection \<open>ingest.py\<close>

text \<open>An entry of the list \<^verbatim>\<open>errors\<close>: \<^verbatim>\<open>{"index": i, "error": err_msg}\<close>.\<close>

record IngestError =
  index :: nat
  error :: string

text \<open>
  The state \<^verbatim>\<open>process_logs\<close> works on: the database and the two module-level lists
  of recent batches (accepted, rejected, time) and recent rejections (time, error,
  index).
\<close>

record IngestState =
  database :: Database
  RECENT_INGESTS :: "(nat \<times> nat \<times> int) list"
  RECENT_REJECTED :: "(int \<times> string \<times> nat) list"

text \<open>
  What the storage medium does during one call of \<^verbatim>\<open>process_logs\<close>: whether
  \<^verbatim>\<open>get_connection\<close> succeeds for the loop, the outcome of the write of the item at
  each index, and whether the update of the counter goes through.
\<close>

record Storage =
  connect_ok :: bool
  item_write :: "nat \<Rightarrow> write_outcome"
  counter_ok :: bool

definition RECENT_MAX :: nat where
  "RECENT_MAX = 50"

definition RECENT_REJECTED_MAX :: nat where
  "RECENT_REJECTED_MAX = 100"

text \<open>\<^verbatim>\<open>buf.append(x)\<close>, then \<^verbatim>\<open>buf.pop(0)\<close> when the list is over its bound.\<close>

definition append_bounded :: "nat \<Rightarrow> 'a \<Rightarrow> 'a list \<Rightarrow> 'a list" where
  "append_bounded bound x buf =
     (let buf' = buf @ [x] in if bound < length buf' then tl buf' else buf')"

text \<open>
  \<^verbatim>\<open>store_log\<close>: \<^verbatim>\<open>json.dumps\<close> of the metadata may raise, and so may the
  \<^verbatim>\<open>INSERT\<close>; otherwise the row is in the open transaction.
\<close>

definition store_log ::
  "runtime \<Rightarrow> write_outcome \<Rightarrow> Connection \<Rightarrow> CanonicalLog \<Rightarrow> string \<Rightarrow> string
     \<Rightarrow> py_error + Connection" where
  "store_log L w cn c fp gid =
     (case (if metadata c \<noteq> [] then json_dumps L (PDict (metadata c)) else Some ''{}'') of
        None \<Rightarrow> Inl TypeError
      | Some md \<Rightarrow>
          if w = InsertRefused then Inl DatabaseError
          else Inr (cn\<lparr>visible := (visible cn)
                        \<lparr>logs := logs (visible cn) @
                           [\<lparr>row_id = Suc (last_id (visible cn)),
                             row_timestamp = isoformat (timestamp c),
                             row_level = level c,
                             row_message = message c,
                             row_service = service c,
                             row_correlation_id = correlation_id c,
                             row_metadata = md,
                             row_raw = raw c,
                             row_fingerprint = fp,
                             row_group_id = gid\<rparr>],
                         last_id := Suc (last_id (visible cn))\<rparr>\<rparr>))"

text \<open>
  The counters and the connection while the loop of \<^verbatim>\<open>process_logs\<close> runs.
\<close>

record Tally =
  accepted :: nat
  rejected :: nat
  errors :: "IngestError list"
  conn :: Connection

definition reject :: "nat \<Rightarrow> string \<Rightarrow> Tally \<Rightarrow> Tally" where
  "reject i err_msg t =
     t\<lparr>rejected := rejected t + 1,
       errors := errors t @ [\<lparr>index = i, error = err_msg\<rparr>]\<rparr>"

text \<open>
  The body of the loop, for the item \<open>raw_ev\<close> at the index \<open>i\<close>, whose write has the
  outcome \<open>w\<close>. The \<^verbatim>\<open>except\<close> clause around the write does not roll back.
\<close>

definition process_item ::
  "runtime \<Rightarrow> Settings \<Rightarrow> int \<Rightarrow> write_outcome \<Rightarrow> nat \<Rightarrow> pyval \<Rightarrow> Tally \<Rightarrow> Tally" where
  "process_item L cfg now w i raw_ev t =
     (case raw_ev of
        PDict d \<Rightarrow>
          (case normalize_log L now d of
             Inl e \<Rightarrow> reject i (''Normalization failed: '' @ exc_text L e) t
           | Inr canonical \<Rightarrow>
               (case validate_log L cfg (Canonical canonical) of
                  (False, err_list) \<Rightarrow> reject i (join ''; '' err_list) t
                | (True, err_list) \<Rightarrow>
                    (let fingerprint = compute_fingerprint L canonical;
                         group_id = fingerprint
                     in case store_log L w (conn t) canonical fingerprint group_id of
                          Inl e \<Rightarrow> reject i (''Storage failed: '' @ exc_text L e) t
                        | Inr cn \<Rightarrow>
                            (case commit w cn of
                               (None, cn') \<Rightarrow> t\<lparr>accepted := accepted t + 1, conn := cn'\<rparr>
                             | (Some e, cn') \<Rightarrow>
                                 reject i (''Storage failed: '' @ exc_text L e)
                                   (t\<lparr>conn := cn'\<rparr>)))))
      | _ \<Rightarrow> reject i ''Each log must be a JSON object'' t)"

fun process_items ::
  "runtime \<Rightarrow> Settings \<Rightarrow> int \<Rightarrow> (nat \<Rightarrow> write_outcome) \<Rightarrow> nat \<Rightarrow> pyval list \<Rightarrow> Tally
     \<Rightarrow> Tally" where
  "process_items L cfg now ws i [] t = t"
| "process_items L cfg now ws i (raw_ev # rest) t =
     process_items L cfg now ws (Suc i) rest (process_item L cfg now (ws i) i raw_ev t)"

text \<open>
  \<^verbatim>\<open>process_logs\<close>: what it returns or raises, and the state it leaves. It raises
  when \<^verbatim>\<open>get_connection\<close> does, before the loop, and when \<^verbatim>\<open>add_rejected_count\<close>
  does, after the connection of the loop is closed and before the lists of recent
  batches and rejections are written.
\<close>

definition process_logs ::
  "runtime \<Rightarrow> Settings \<Rightarrow> int \<Rightarrow> Storage \<Rightarrow> pyval list \<Rightarrow> IngestState
     \<Rightarrow> (py_error + nat \<times> nat \<times> IngestError list) \<times> IngestState" where
  "process_logs L cfg now env raw_logs st =
     (if \<not> connect_ok env then (Inl DatabaseError, st)
      else
        (let t = process_items L cfg now (item_write env) 0 raw_logs
                   \<lparr>accepted = 0, rejected = 0, errors = [], conn = connect (database st)\<rparr>;
             db = durable (conn t)
         in case (if 0 < rejected t then add_rejected_count (counter_ok env) (int (rejected t)) db
                  else Inr db) of
              Inl e \<Rightarrow> (Inl e, st\<lparr>database := db\<rparr>)
            | Inr db' \<Rightarrow>
                (Inr (accepted t, rejected t, errors t),
                 \<lparr>database = db',
                  RECENT_INGESTS =
                    append_bounded RECENT_MAX (accepted t, rejected t, now) (RECENT_INGESTS st),
                  RECENT_REJECTED =
                    fold (\<lambda>err buf.
                            append_bounded RECENT_REJECTED_MAX (now, error err, index err) buf)
                      (errors t) (RECENT_REJECTED st)\<rparr>)))"
subsection \<open>Texts with one identifier\<close>






subsection \<open>Accepted items\<close>



subsection \<open>Example inputs\<close>





definition example_service_with_bar :: CanonicalLog where
  "example_service_with_bar =
     \<lparr>timestamp = Naive 0, level = ''ERROR'', message = ''disk full'',
      service = ''auth|api'', correlation_id = [], metadata = [], raw = []\<rparr>"

definition example_level_with_bar :: CanonicalLog where
  "example_level_with_bar =
     \<lparr>timestamp = Naive 0, level = ''api|ERROR'', message = ''disk full'',
      service = ''auth'', correlation_id = [], metadata = [], raw = []\<rparr>"

definition example_auth_error :: CanonicalLog where
  "example_auth_error =
     \<lparr>timestamp = Naive 0, level = ''ERROR'', message = ''disk full'',
      service = ''auth'', correlation_id = [], metadata = [], raw = []\<rparr>"

definition example_auth_warning :: CanonicalLog where
  "example_auth_warning =
     \<lparr>timestamp = Naive 0, level = ''WARNING'', message = ''disk full'',
      service = ''auth'', correlation_id = [], metadata = [], raw = []\<rparr>"

definition example_raw_event :: pydict where
  "example_raw_event =
     [(''msg'', PStr '' hi ''), (''region'', PStr ''eu''), (''Level'', PStr ''warn''),
      (''user'', PNone), (''Service_Name'', PStr ''auth'')]"


definition empty_state :: IngestState where
  "empty_state =
     \<lparr>database = \<lparr>logs = [], last_id = 0, total_rejected = 0\<rparr>,
      RECENT_INGESTS = [], RECENT_REJECTED = []\<rparr>"


section \<open>Properties\<close>

subsection \<open>Texts\<close>

lemmas text_defs =
  strip_def strip_chars_def upper_def space_char_def ascii_char_def is_ascii_def
  is_continuation_def is_space_def upper_char_def ascii_lower_letters_def
  ascii_upper_letters_def

lemma sample_runtime_fields:
  "uni_isspace sample_runtime ch = (ch = [CHR 0xC2, CHR 0xA0])"
  "uni_isdecimal sample_runtime ch = (ch = [CHR 0xD9, CHR 0xA3])"
  "uni_isalnum sample_runtime ch
     = (ch \<in> set [[CHR 0xD9, CHR 0xA3], [CHR 0xC3, CHR 0xA9], [CHR 0xC3, CHR 0x89],
                   [CHR 0xC4, CHR 0xB1]])"
  "uni_upper sample_runtime ch
     = (if ch = [CHR 0xC3, CHR 0xA9] then [CHR 0xC3, CHR 0x89]
        else if ch = [CHR 0xC4, CHR 0xB1] then ''I'' else ch)"
  "repr_val sample_runtime v = ''<repr>''"
  "json_dumps sample_runtime v = Some ''<json>''"
  "fromisoformat sample_runtime s = None"
  "float_of_str sample_runtime s = None"
  "exc_text sample_runtime e = ''<exception>''"
  by (simp_all add: sample_runtime_def)

text \<open>Rules for evaluating the decimal digits of a number and an ISO-8601 text.\<close>

lemma str_nat_small: "n < 10 \<Longrightarrow> str_nat n = [digit_chars ! n]"
  by (simp add: str_nat.simps)

lemma str_nat_large:
  "10 \<le> n \<Longrightarrow> str_nat n = str_nat (n div 10) @ [digit_chars ! (n mod 10)]"
  by (subst str_nat.simps) simp

lemma replicate_numeral: "replicate (numeral k) x = x # replicate (pred_numeral k) x"
  by (simp add: numeral_eq_Suc)

lemmas iso_defs =
  civil_from_days_def civil_doe_def civil_yoe_def civil_doy_def civil_ymd_def iso_date_def
  iso_time_def zero_pad_def str_int_def str_nat_small str_nat_large digit_chars_def
  replicate_numeral

subsection \<open>validate\_log\<close>









subsection \<open>The passes of the message template\<close>
















































subsection \<open>compute\_fingerprint\<close>

lemmas char_class_defs =
  uuid_at_def is_digit_def is_hex_def is_word_def is_space_def at_word_start_def
  at_word_end_def digit_chars_def ascii_lower_letters_def ascii_upper_letters_def
  word_char_def digit_char_def hex_char_def space_char_def ascii_char_def is_ascii_def
  is_continuation_def ascii_chars_def strip_def strip_chars_def sub_hex.simps sub_int.simps
  sub_colon.simps



text \<open>
  Outside ASCII the template follows the tables of Unicode: a digit behind a letter
  with an accent is no number of its own, an Arabic-Indic digit is a number, and the
  no-break space is trimmed.
\<close>

lemma normalize_message_unicode_examples:
  "normalize_message_for_fingerprint sample_runtime [CHR 0xC3, CHR 0xA9, CHR ''5'']
     = [CHR 0xC3, CHR 0xA9, CHR ''5'']"
  "normalize_message_for_fingerprint sample_runtime
     [CHR ''a'', CHR '' '', CHR 0xD9, CHR 0xA3, CHR 0xC2, CHR 0xA0] = ''a <n>''"
  by (simp_all add: normalize_message_for_fingerprint_def char_class_defs
      sample_runtime_fields)




text \<open>
  The fingerprint of an entry with a non-empty level: the service and the templated
  message, each with its separator when it is not empty, around the level.
\<close>

lemma compute_fingerprint_shape:
  assumes "level c \<noteq> []"
  shows "compute_fingerprint L c
           = (if service c = [] then [] else service c @ ''|'') @ level c
               @ (if normalize_message_for_fingerprint L (message c) = [] then []
                  else ''|'' @ normalize_message_for_fingerprint L (message c))"
  using assms by (simp add: compute_fingerprint_def Let_def)

text \<open>A text without the separator is what follows the last separator.\<close>

lemma after_last_separator:
  assumes "CHR ''|'' \<notin> set l"
  shows "takeWhile (\<lambda>c. c \<noteq> CHR ''|'') (rev ((if s = [] then [] else s @ ''|'') @ l)) = rev l"
proof (cases "s = []")
  case True
  with assms show ?thesis
    by (auto simp: takeWhile_eq_all_conv)
next
  case False
  have "takeWhile (\<lambda>c. c \<noteq> CHR ''|'') (rev l @ CHR ''|'' # rev s) = rev l"
    using assms by (subst takeWhile_append2) auto
  with False show ?thesis
    by simp
qed

lemma prefix_level_inject:
  assumes "(if s1 = [] then [] else s1 @ ''|'') @ l1 = (if s2 = [] then [] else s2 @ ''|'') @ l2"
    and "CHR ''|'' \<notin> set l1" and "CHR ''|'' \<notin> set l2"
  shows "s1 = s2 \<and> l1 = l2"
proof -
  have "rev l1 = rev l2"
    using after_last_separator [OF assms(2), of s1] after_last_separator [OF assms(3), of s2]
      assms(1)
    by simp
  then have l: "l1 = l2"
    by simp
  with assms(1) have "(if s1 = [] then [] else s1 @ ''|'') = (if s2 = [] then [] else s2 @ ''|'')"
    by simp
  then have "s1 = s2"
    by (auto split: if_splits)
  with l show ?thesis
    by simp
qed

text \<open>
  C7 (as amended). For two entries with one message text whose levels are not empty
  and hold no separator \<^verbatim>\<open>|\<close> (as the levels the validator accepts), different
  services or different levels give different fingerprints.
\<close>

theorem compute_fingerprint_separates:
  assumes "message a = message b"
    and "level a \<noteq> []" and "CHR ''|'' \<notin> set (level a)"
    and "level b \<noteq> []" and "CHR ''|'' \<notin> set (level b)"
    and "service a \<noteq> service b \<or> level a \<noteq> level b"
  shows "compute_fingerprint L a \<noteq> compute_fingerprint L b"
proof
  assume eq: "compute_fingerprint L a = compute_fingerprint L b"
  define t where "t = normalize_message_for_fingerprint L (message b)"
  define suffix where "suffix = (if t = [] then [] else ''|'' @ t)"
  define pa where "pa = (if service a = [] then [] else service a @ ''|'') @ level a"
  define pb where "pb = (if service b = [] then [] else service b @ ''|'') @ level b"
  have "compute_fingerprint L a = pa @ suffix"
    using compute_fingerprint_shape [OF assms(2)] assms(1)
    by (simp add: pa_def suffix_def t_def)
  moreover have "compute_fingerprint L b = pb @ suffix"
    using compute_fingerprint_shape [OF assms(4)]
    by (simp add: pb_def suffix_def t_def)
  ultimately have "pa = pb"
    using eq by simp
  then have "(if service a = [] then [] else service a @ ''|'') @ level a
          = (if service b = [] then [] else service b @ ''|'') @ level b"
    by (simp only: pa_def pb_def)
  then have "service a = service b \<and> level a = level b"
    using assms(3) assms(5) by (rule prefix_level_inject)
  with assms(6) show False
    by simp
qed

theorem compute_fingerprint_separates_witness:
  "compute_fingerprint sample_runtime example_auth_error \<noteq> compute_fingerprint sample_runtime example_auth_warning
   \<and> level example_auth_error \<in> set (allowed_levels settings)
   \<and> level example_auth_warning \<in> set (allowed_levels settings)"
  using compute_fingerprint_separates [of example_auth_error example_auth_warning sample_runtime]
  by (simp add: example_auth_error_def example_auth_warning_def settings_def)

theorem compute_fingerprint_separator_counterexample:
  "message example_service_with_bar = message example_level_with_bar
   \<and> service example_service_with_bar \<noteq> service example_level_with_bar
   \<and> level example_service_with_bar \<noteq> level example_level_with_bar
   \<and> compute_fingerprint sample_runtime example_service_with_bar
       = compute_fingerprint sample_runtime example_level_with_bar"
  by (simp add: example_service_with_bar_def example_level_with_bar_def
      compute_fingerprint_def normalize_message_for_fingerprint_def char_class_defs)

subsection \<open>normalize\<close>

lemmas alias_defs =
  known_def LEVEL_ALIASES_def MESSAGE_ALIASES_def SERVICE_ALIASES_def CORRELATION_ALIASES_def
  TIMESTAMP_ALIASES_def

lemmas lower_defs =
  lower_def lower_char_def ascii_lower_letters_def ascii_upper_letters_def

lemma utcfromtimestamp_year_out_of_range:
  "utcfromtimestamp (Finite (real_of_int (10 ^ 18) / 1000)) = Inl ValueError"
  by (simp add: utcfromtimestamp_def round_half_even_def Let_def min_datetime_us_def
      max_datetime_us_def)

text \<open>
  C2 (the code departs from it). \<^verbatim>\<open>normalize\<close> raises on the event
  \<^verbatim>\<open>{"timestamp": 1000000000000000000}\<close>: the number is above \<^verbatim>\<open>1e12\<close>, so it is
  divided by 1000, and \<^verbatim>\<open>datetime.utcfromtimestamp(1e15)\<close> raises \<^verbatim>\<open>ValueError\<close>
  (the year is far beyond 9999). The numeric branch of \<^verbatim>\<open>_coerce_timestamp\<close> has no
  \<^verbatim>\<open>try\<close>; the string branch has one and falls back to the clock.
\<close>

theorem normalize_raises_on_large_timestamp:
  "normalize_log L now [(''timestamp'', PInt (10 ^ 18))] = Inl ValueError"
proof -
  have "find_value [(''timestamp'', PInt (10 ^ 18))] TIMESTAMP_ALIASES = PInt (10 ^ 18)"
    by (simp add: TIMESTAMP_ALIASES_def data_lower_def lower_defs)
  moreover have "coerce_timestamp L now (PInt (10 ^ 18)) = Inl ValueError"
    using utcfromtimestamp_year_out_of_range by simp
  ultimately show ?thesis
    by (simp add: normalize_log_def Let_def)
qed

lemma normalize_example_raw_event:
  "normalize_log sample_runtime 7 example_raw_event
     = Inr \<lparr>timestamp = Naive 7, level = ''WARN'', message = ''hi'', service = ''auth'',
            correlation_id = [], metadata = [(''region'', PStr ''eu'')],
            raw = ''<repr>''\<rparr>"
  by (simp add: normalize_log_def Let_def example_raw_event_def alias_defs data_lower_def
      lower_defs coerce_level_def coerce_string_def str_or_def text_defs
      sample_runtime_fields)

text \<open>
  C8 (as amended). The metadata of the entry that \<^verbatim>\<open>normalize\<close> returns holds
  exactly the items of the raw event whose key, in lower case, is no alias in lower
  case and whose value is not \<^verbatim>\<open>None\<close>, each with its key and value as they are.
\<close>

theorem normalize_metadata:
  assumes "normalize_log L now raw_ev = Inr c"
  shows "set (metadata c) =
           {(k, v). (k, v) \<in> set raw_ev
              \<and> lower k \<notin> lower ` (set TIMESTAMP_ALIASES \<union> set LEVEL_ALIASES
                    \<union> set MESSAGE_ALIASES \<union> set SERVICE_ALIASES \<union> set CORRELATION_ALIASES)
              \<and> v \<noteq> PNone}"
proof -
  define keep where
    "keep = (\<lambda>(k :: string, v). lower k \<notin> set (map lower known) \<and> v \<noteq> PNone)"
  have md: "metadata c = filter keep raw_ev"
    using assms by (auto simp: normalize_log_def Let_def keep_def split: sum.splits)
  have "set (map lower known) = lower ` (set TIMESTAMP_ALIASES \<union> set LEVEL_ALIASES
                    \<union> set MESSAGE_ALIASES \<union> set SERVICE_ALIASES \<union> set CORRELATION_ALIASES)"
    by (auto simp: known_def)
  then show ?thesis
    unfolding md keep_def by auto
qed

theorem normalize_metadata_witness:
  "normalize_log sample_runtime 7 example_raw_event
     = Inr \<lparr>timestamp = Naive 7, level = ''WARN'', message = ''hi'', service = ''auth'',
            correlation_id = [], metadata = [(''region'', PStr ''eu'')],
            raw = ''<repr>''\<rparr>
   \<and> {(k, v). (k, v) \<in> set example_raw_event
              \<and> lower k \<notin> lower ` (set TIMESTAMP_ALIASES \<union> set LEVEL_ALIASES
                    \<union> set MESSAGE_ALIASES \<union> set SERVICE_ALIASES \<union> set CORRELATION_ALIASES)
              \<and> v \<noteq> PNone}
       = {(''region'', PStr ''eu'')}"
  using normalize_metadata [OF normalize_example_raw_event] normalize_example_raw_event
  by simp

theorem normalize_metadata_none_counterexample:
  "normalize_log sample_runtime 7 [(''region'', PNone)]
     = Inr \<lparr>timestamp = Naive 7, level = ''INFO'', message = ''(no message)'',
            service = ''unknown'', correlation_id = [], metadata = [], raw = ''<repr>''\<rparr>
   \<and> lower ''region'' \<notin> set (map lower known)"
  by (simp add: normalize_log_def Let_def alias_defs data_lower_def
      lower_defs coerce_level_def coerce_string_def str_or_def sample_runtime_fields)

subsection \<open>process\_logs\<close>












lemma normalize_msg_only:
  "normalize_log sample_runtime 7 [(''msg'', PStr m)]
     = Inr \<lparr>timestamp = Naive 7, level = ''INFO'',
            message = str_or (strip sample_runtime m) ''(no message)'', service = ''unknown'',
            correlation_id = [], metadata = [], raw = ''<repr>''\<rparr>"
  by (simp add: normalize_log_def Let_def alias_defs data_lower_def
      lower_defs coerce_level_def coerce_string_def str_or_def sample_runtime_fields)


lemma isoformat_example: "iso_text 7 = ''1970-01-01T00:00:00.000007''"
  by (simp add: iso_text_def iso_defs)

lemmas process_logs_defs =
  process_logs_def Let_def process_item_def str_or_def check_rules_def
  canonical_payload_size_def settings_def invalid_level_error_def compute_fingerprint_def
  normalize_message_for_fingerprint_def char_class_defs store_log_def commit_def connect_def
  reject_def add_rejected_count_def append_bounded_def RECENT_MAX_def RECENT_REJECTED_MAX_def
  sample_runtime_fields isoformat_example




text \<open>
  The \<^verbatim>\<open>except\<close> clause does not roll back: the row of an item whose \<^verbatim>\<open>COMMIT\<close> failed
  is committed with the next accepted item, so the table can grow by more rows than
  items were accepted.
\<close>

lemma process_logs_commits_pending:
  "process_logs sample_runtime settings 7
     \<lparr>connect_ok = True, item_write = (\<lambda>i. if i = 0 then CommitRefused else Written),
      counter_ok = True\<rparr>
     [PDict [(''msg'', PStr ''late'')], PDict [(''msg'', PStr ''ok'')]] empty_state
     = (Inr (1, 1, [\<lparr>index = 0, error = ''Storage failed: <exception>''\<rparr>]),
        \<lparr>database =
           \<lparr>logs =
              [\<lparr>row_id = 1, row_timestamp = ''1970-01-01T00:00:00.000007'',
                row_level = ''INFO'', row_message = ''late'', row_service = ''unknown'',
                row_correlation_id = [], row_metadata = ''{}'',
                row_raw = ''<repr>'', row_fingerprint = ''unknown|INFO|late'',
                row_group_id = ''unknown|INFO|late''\<rparr>,
               \<lparr>row_id = 2, row_timestamp = ''1970-01-01T00:00:00.000007'',
                row_level = ''INFO'', row_message = ''ok'', row_service = ''unknown'',
                row_correlation_id = [], row_metadata = ''{}'',
                row_raw = ''<repr>'', row_fingerprint = ''unknown|INFO|ok'',
                row_group_id = ''unknown|INFO|ok''\<rparr>],
            last_id = 2, total_rejected = 1\<rparr>,
         RECENT_INGESTS = [(1, 1, 7)],
         RECENT_REJECTED = [(7, ''Storage failed: <exception>'', 0)]\<rparr>)"
  by (simp add: empty_state_def normalize_msg_only process_logs_defs)

end
